theory Spec2Isabelle
  imports Main "HOL-Library.AList" "HOL-Library.Sublist"
begin

section \<open>Conventions of the embedding\<close>

text \<open>
  The platform is JavaScript. Its module-level state (the two \<open>Map\<close>s of the registry,
  the \<open>activeGame\<close> variable of the app controller, the browser's \<open>localStorage\<close>) is
  passed explicitly: every operation takes the state and returns its result together
  with the state it leaves behind.

  \<^item> A JavaScript \<open>Map\<close>, and a plain object used as a dictionary whose entries are
    enumerated (\<open>Object.values\<close>), is an association list in insertion order.
    Writing a key that exists replaces the value in place, writing a new key appends:
    this is \<open>AList.update\<close>; reading is \<open>map_of\<close>. (An object enumerates keys that
    are decimal integers first; profile ids start with \<open>p_\<close>.)
  \<^item> A dictionary that is only read by key is a map \<open>string \<rightharpoonup> 'v\<close>.
  \<^item> Objects of a documented shape are records. A partial object handed to
    \<open>Object.assign\<close> is a record of options over the same fields.
  \<^item> A \<open>throw\<close> is the left injection of a sum.
  \<^item> A plain object read with \<open>obj[key]\<close> answers with its own property, or else
    with the member of \<open>Object.prototype\<close> of that name, or else with undefined
    (\<open>js_get\<close> below). A \<open>Map\<close> has no such inheritance.
  \<^item> JavaScript numbers are doubles. Session counts and levels are the integers among
    them; \<open>++\<close> rounds its result to a double (\<open>increment\<close> below).
  \<^item> What the environment supplies to a call (the clock, the random generator, whether
    \<open>localStorage.setItem\<close> throws) is a parameter of the call.
\<close>

section \<open>Game registry (js/registry.js)\<close>

record category =
  cat_id :: string
  label :: string
  icon :: string
  color :: string

text \<open>
  The game config contract. \<open>init\<close> and \<open>destroy\<close> are function references, kept
  as opaque handles of type \<open>'f\<close>; a property the object lacks is \<open>None\<close>.
\<close>

record 'f game_config =
  game_id :: "string option"
  title :: string
  category :: string
  thumbnail :: string
  description :: string
  ageRange :: "nat \<times> nat"
  init :: "'f option"
  destroy :: "'f option"

text \<open>What is thrown: \<open>new Error(message)\<close> by the registry, a \<open>TypeError\<close> by the runtime.\<close>

datatype error = Error string | TypeError

type_synonym categories = "(string \<times> category) list"

type_synonym 'f games = "(string \<times> 'f game_config) list"

text \<open>The four categories the module starts with (icons written as code points).\<close>

definition initial_categories :: categories where
  "initial_categories =
     [(''counting'', \<lparr>cat_id = ''counting'', label = ''Counting'', icon = ''U+1F522'', color = ''#FF9F43''\<rparr>),
      (''reading'', \<lparr>cat_id = ''reading'', label = ''Reading'', icon = ''U+1F4D6'', color = ''#54A0FF''\<rparr>),
      (''thinking'', \<lparr>cat_id = ''thinking'', label = ''Thinking'', icon = ''U+1F9E9'', color = ''#5F27CD''\<rparr>),
      (''feelings'', \<lparr>cat_id = ''feelings'', label = ''Feelings'', icon = ''U+1F49B'', color = ''#FF6B6B''\<rparr>)]"

definition initial_games :: "'f games" where
  "initial_games = []"

text \<open>
  JavaScript's \<open>!config.id\<close>: true for an absent id and for the empty string.
  \<open>!config.init\<close> and \<open>!config.destroy\<close> are true for an absent reference.
\<close>

definition falsy_id :: "string option \<Rightarrow> bool" where
  "falsy_id i = (case i of None \<Rightarrow> True | Some s \<Rightarrow> s = [])"

definition show_id :: "string option \<Rightarrow> string" where
  "show_id i = (case i of None \<Rightarrow> ''undefined'' | Some s \<Rightarrow> s)"

text \<open>
  \<open>register(config)\<close>: throws when id, init or destroy is falsy, otherwise
  \<open>games.set(config.id, config)\<close>. The second component is the \<open>games\<close> map afterwards.
\<close>

definition register :: "'f game_config \<Rightarrow> 'f games \<Rightarrow> (error + unit) \<times> 'f games" where
  "register config games =
     (if falsy_id (game_id config) \<or> init config = None \<or> destroy config = None
      then (Inl (Error (''Game registration requires id, init, destroy. Got: '' @ show_id (game_id config))), games)
      else (Inr (), AList.update (the (game_id config)) config games))"

text \<open>\<open>get(id)\<close>: \<open>games.get(id) || null\<close>; a stored config is an object, hence truthy.\<close>

definition get :: "'f games \<Rightarrow> string \<Rightarrow> 'f game_config option" where
  "get games i = map_of games i"

definition getAll :: "'f games \<Rightarrow> 'f game_config list" where
  "getAll games = map snd games"

definition getByCategory :: "'f games \<Rightarrow> string \<Rightarrow> 'f game_config list" where
  "getByCategory games categoryId = filter (\<lambda>g. category g = categoryId) (getAll games)"

definition getCategories :: "categories \<Rightarrow> 'f games \<Rightarrow> category list" where
  "getCategories categories games =
     filter (\<lambda>cat. length (getByCategory games (cat_id cat)) > 0) (map snd categories)"

definition getCategoryInfo :: "categories \<Rightarrow> string \<Rightarrow> category option" where
  "getCategoryInfo categories i = map_of categories i"

definition addCategory :: "string \<Rightarrow> string \<Rightarrow> string \<Rightarrow> string \<Rightarrow> categories \<Rightarrow> categories" where
  "addCategory i l ic c categories =
     AList.update i \<lparr>cat_id = i, label = l, icon = ic, color = c\<rparr> categories"

text \<open>Categories in the order in which their ids were first registered.\<close>

definition registered_categories :: "categories \<Rightarrow> category list" where
  "registered_categories categories = map snd categories"

text \<open>
  The first placeholder that js/games/coming-soon.js registers, as \<open>makePlaceholder\<close>
  builds it; the handles 0 and 1 stand for its \<open>init\<close> and \<open>destroy\<close> functions.
\<close>

definition letter_safari :: "nat game_config" where
  "letter_safari =
     \<lparr>game_id = Some ''letter-safari'', title = ''Letter Safari'', category = ''reading'',
      thumbnail = ''U+1F981'', description = ''Hunt for letters in the wild!'', ageRange = (4, 8),
      init = Some 0, destroy = Some 1\<rparr>"

section \<open>Storage abstraction layer (js/storage.js)\<close>

text \<open>
  \<open>localStorage\<close> maps keys to JSON texts. The embedding keeps, under each key, the
  document that \<open>JSON.parse\<close> gives back for the stored text; for the documents the two
  managers write (strings, integers, nested objects), \<open>JSON.parse (JSON.stringify d) = d\<close>
  and every \<open>load\<close> returns a fresh copy. Each manager uses its own key, so the part of
  \<open>localStorage\<close> that holds documents of type \<open>'d\<close> is a map \<open>string \<rightharpoonup> 'd\<close>.
\<close>

type_synonym 'd localStorage = "string \<rightharpoonup> 'd"

text \<open>
  What the browser supplies to one call: whether \<open>localStorage.setItem\<close> returns
  normally (it throws on quota or when storage is disabled), \<open>Date.now()\<close>, the text of
  \<open>Math.random().toString(36)\<close> and the text of \<open>new Date().toISOString()\<close>.
\<close>

record env =
  setItem_ok :: bool
  now :: nat
  random36 :: string
  nowISO :: string

definition PREFIX :: string where
  "PREFIX = ''amaragame_''"

text \<open>
  \<open>LocalStorageAdapter.save\<close>: the \<open>try\<close> block stores the document and returns true; an
  exception of \<open>setItem\<close> is caught, logged and turned into false.
\<close>

definition save :: "env \<Rightarrow> string \<Rightarrow> 'd \<Rightarrow> 'd localStorage \<Rightarrow> bool \<times> 'd localStorage" where
  "save e key data ls =
     (if setItem_ok e then (True, ls(PREFIX @ key \<mapsto> data)) else (False, ls))"

text \<open>\<open>LocalStorageAdapter.load\<close>: \<open>raw ? JSON.parse(raw) : null\<close>; nothing is written.\<close>

definition load :: "string \<Rightarrow> 'd localStorage \<Rightarrow> 'd option \<times> 'd localStorage" where
  "load key ls = (ls (PREFIX @ key), ls)"

definition remove :: "string \<Rightarrow> 'd localStorage \<Rightarrow> bool \<times> 'd localStorage" where
  "remove key ls = (True, ls(PREFIX @ key := None))"

section \<open>Plain objects and numbers of the runtime\<close>

text \<open>
  The documents that \<open>JSON.parse\<close> returns are plain objects: their prototype is
  \<open>Object.prototype\<close>, whose members every property read falls back to. In a browser
  these are eleven functions and the accessor \<open>__proto__\<close>, which answers with
  \<open>Object.prototype\<close> itself; all twelve are truthy. The embedding takes the
  prototype of a page whose scripts have not added to it. A call of this program that
  writes on one of these built-in objects is modelled up to that write: the built-in
  objects are not part of the state.
\<close>

definition Object_prototype :: "string list" where
  "Object_prototype =
     [''constructor'', ''__defineGetter__'', ''__defineSetter__'', ''hasOwnProperty'',
      ''__lookupGetter__'', ''__lookupSetter__'', ''isPrototypeOf'', ''propertyIsEnumerable'',
      ''toString'', ''valueOf'', ''__proto__'', ''toLocaleString'']"

text \<open>
  What \<open>obj[key]\<close> answers: an own property, the built-in inherited under that
  name, or undefined.
\<close>

datatype 'v property = Own 'v | Inherited string | Missing

definition js_get :: "(string \<rightharpoonup> 'v) \<Rightarrow> string \<Rightarrow> 'v property" where
  "js_get obj key =
     (case obj key of
        Some v \<Rightarrow> Own v
      | None \<Rightarrow> if key \<in> set Object_prototype then Inherited key else Missing)"

text \<open>
  The double nearest to an integer (ties to the even significand; 53 bits). Integers up
  to \<open>2^53\<close> in magnitude are doubles themselves. Overflow to infinity, beyond
  \<open>2^1024\<close>, is left out.
\<close>

function bit_length :: "nat \<Rightarrow> nat" where
  "bit_length n = (if n = 0 then 0 else Suc (bit_length (n div 2)))"
  by pat_completeness auto
termination
  by (relation "measure (\<lambda>n. n)") auto

definition to_double :: "int \<Rightarrow> int" where
  "to_double m =
     (let a = nat \<bar>m\<bar> in
      if a \<le> 2 ^ 53 then m
      else
        (let u = 2 ^ (bit_length a - 53);
             q = a div u;
             r = a mod u;
             q' = (if 2 * r < u then q else if u < 2 * r then q + 1
                   else if even q then q else q + 1)
         in sgn m * int (q' * u)))"

text \<open>\<open>n++\<close> on a property that holds the number \<open>n\<close>.\<close>

definition increment :: "int \<Rightarrow> int" where
  "increment n = to_double (n + 1)"

section \<open>Profile manager (js/profile.js)\<close>

record profile =
  profile_id :: string
  name :: string
  avatar :: string
  createdAt :: string

text \<open>The \<open>updates\<close> object of \<open>updateProfile\<close>: the fields it carries are \<open>Some\<close>.\<close>

record profile_updates =
  set_profile_id :: "string option"
  set_name :: "string option"
  set_avatar :: "string option"
  set_createdAt :: "string option"

record profiles_data =
  version :: nat
  active :: "string option"
  profiles :: "(string \<times> profile) list"

definition PROFILES_KEY :: string where
  "PROFILES_KEY = ''profiles''"

definition digit36 :: "nat \<Rightarrow> char" where
  "digit36 d = ''0123456789abcdefghijklmnopqrstuvwxyz'' ! d"

text \<open>\<open>Number.prototype.toString(36)\<close> on a non-negative integer.\<close>

function toString36 :: "nat \<Rightarrow> string" where
  "toString36 n = (if n < 36 then [digit36 n] else toString36 (n div 36) @ [digit36 (n mod 36)])"
  by pat_completeness auto
termination
  by (relation "measure (\<lambda>n. n)") auto

text \<open>\<open>'p_' + Date.now().toString(36) + Math.random().toString(36).slice(2, 7)\<close>\<close>

definition generateId :: "env \<Rightarrow> string" where
  "generateId e = ''p_'' @ toString36 (now e) @ take 5 (drop 2 (random36 e))"

definition loadData :: "profiles_data localStorage \<Rightarrow> profiles_data \<times> profiles_data localStorage" where
  "loadData ls =
     (case load PROFILES_KEY ls of
        (None, ls') \<Rightarrow> (\<lparr>version = 1, active = None, profiles = []\<rparr>, ls')
      | (Some d, ls') \<Rightarrow> (d, ls'))"

definition saveData :: "env \<Rightarrow> profiles_data \<Rightarrow> profiles_data localStorage \<Rightarrow> profiles_data localStorage" where
  "saveData e data ls = snd (save e PROFILES_KEY data ls)"

text \<open>
  \<open>getActiveProfile\<close>: \<open>!data.active\<close> holds for null and for the empty string;
  \<open>!data.profiles[data.active]\<close> holds when the read answers undefined. The result is
  what \<open>data.profiles[data.active]\<close> answers, \<open>Missing\<close> standing for null.
\<close>

definition getActiveProfile ::
    "profiles_data localStorage \<Rightarrow> profile property \<times> profiles_data localStorage" where
  "getActiveProfile ls =
     (case loadData ls of (data, ls') \<Rightarrow>
        (case active data of
           None \<Rightarrow> (Missing, ls')
         | Some a \<Rightarrow> (if a = [] then Missing else js_get (map_of (profiles data)) a, ls')))"

text \<open>The default value of the parameter \<open>avatar\<close>: U+1F984 in UTF-8.\<close>

definition DEFAULT_AVATAR :: string where
  "DEFAULT_AVATAR = [CHR 0xF0, CHR 0x9F, CHR 0xA6, CHR 0x84]"

definition createProfile ::
    "env \<Rightarrow> string \<Rightarrow> string option \<Rightarrow> profiles_data localStorage \<Rightarrow> profile \<times> profiles_data localStorage" where
  "createProfile e nm av ls =
     (case loadData ls of (data, ls') \<Rightarrow>
        (let i = generateId e;
             p = \<lparr>profile_id = i, name = nm,
                  avatar = (case av of None \<Rightarrow> DEFAULT_AVATAR | Some a \<Rightarrow> a),
                  createdAt = nowISO e\<rparr>;
             data1 = data\<lparr>profiles := AList.update i p (profiles data)\<rparr>;
             data2 = data1\<lparr>active := Some i\<rparr>
         in (p, saveData e data2 ls')))"

definition getAllProfiles :: "profiles_data localStorage \<Rightarrow> profile list \<times> profiles_data localStorage" where
  "getAllProfiles ls = (case loadData ls of (data, ls') \<Rightarrow> (map snd (profiles data), ls'))"

definition setActiveProfile ::
    "env \<Rightarrow> string \<Rightarrow> profiles_data localStorage \<Rightarrow> bool \<times> profiles_data localStorage" where
  "setActiveProfile e i ls =
     (case loadData ls of (data, ls') \<Rightarrow>
        (case js_get (map_of (profiles data)) i of
           Missing \<Rightarrow> (False, ls')
         | Own p \<Rightarrow> (True, saveData e (data\<lparr>active := Some i\<rparr>) ls')
         | Inherited b \<Rightarrow> (True, saveData e (data\<lparr>active := Some i\<rparr>) ls')))"

text \<open>\<open>Object.assign(profile, updates)\<close>: every field that \<open>updates\<close> carries is overwritten.\<close>

definition assign_profile :: "profile \<Rightarrow> profile_updates \<Rightarrow> profile" where
  "assign_profile p u =
     \<lparr>profile_id = (case set_profile_id u of None \<Rightarrow> profile_id p | Some v \<Rightarrow> v),
      name = (case set_name u of None \<Rightarrow> name p | Some v \<Rightarrow> v),
      avatar = (case set_avatar u of None \<Rightarrow> avatar p | Some v \<Rightarrow> v),
      createdAt = (case set_createdAt u of None \<Rightarrow> createdAt p | Some v \<Rightarrow> v)\<rparr>"

text \<open>
  \<open>Object.assign\<close> on a built-in: the eleven functions have a read-only \<open>name\<close>, so
  assigning \<open>name\<close> throws a \<open>TypeError\<close>; every other field of the updates, and
  every field on \<open>Object.prototype\<close> itself, is written on the built-in.
\<close>

definition assign_throws :: "string \<Rightarrow> profile_updates \<Rightarrow> bool" where
  "assign_throws b u = (b \<noteq> ''__proto__'' \<and> set_name u \<noteq> None)"

text \<open>
  \<open>updateProfile\<close>. For a stored profile the fields are merged, the document is saved
  and the profile returned. When the read answers a built-in, \<open>Object.assign\<close> works
  on that: it throws before the save, or the document is saved as loaded and the
  built-in is returned. Otherwise null (\<open>Missing\<close>).
\<close>

definition updateProfile ::
    "env \<Rightarrow> string \<Rightarrow> profile_updates \<Rightarrow> profiles_data localStorage
      \<Rightarrow> (error + profile property) \<times> profiles_data localStorage" where
  "updateProfile e i updates ls =
     (case loadData ls of (data, ls') \<Rightarrow>
        (case js_get (map_of (profiles data)) i of
           Own p \<Rightarrow>
             (let p' = assign_profile p updates;
                  data' = data\<lparr>profiles := AList.update i p' (profiles data)\<rparr>
              in (Inr (Own p'), saveData e data' ls'))
         | Inherited b \<Rightarrow>
             (if assign_throws b updates then (Inl TypeError, ls')
              else (Inr (Inherited b), saveData e data ls'))
         | Missing \<Rightarrow> (Inr Missing, ls')))"

text \<open>The update objects \<open>{}\<close>, \<open>{name: n}\<close> and \<open>{id: i}\<close>.\<close>

definition no_updates :: profile_updates where
  "no_updates = \<lparr>set_profile_id = None, set_name = None, set_avatar = None, set_createdAt = None\<rparr>"

definition only_name :: "string \<Rightarrow> profile_updates" where
  "only_name n = no_updates\<lparr>set_name := Some n\<rparr>"

definition only_id :: "string \<Rightarrow> profile_updates" where
  "only_id i = no_updates\<lparr>set_profile_id := Some i\<rparr>"

text \<open>
  The identity of a profile is its id: in a well-formed collection the keys are distinct
  (they are the property names of one object) and every profile is stored under its own
  id, as \<open>createProfile\<close> stores it.
\<close>

definition keyed_by_id :: "(string \<times> profile) list \<Rightarrow> bool" where
  "keyed_by_id ps = (distinct (map fst ps) \<and> list_all (\<lambda>kp. profile_id (snd kp) = fst kp) ps)"

section \<open>Progress manager (js/progress.js)\<close>

text \<open>
  One progress record. \<open>lastPlayed\<close> is an ISO string or null; \<open>custom\<close> is the
  game's own object, whose values the platform never looks at (type \<open>'c\<close>).
\<close>

record 'c progress =
  sessionsPlayed :: int
  currentLevel :: int
  bestLevel :: int
  lastPlayed :: "string option"
  custom :: "string \<rightharpoonup> 'c"

text \<open>The \<open>updates\<close> object of \<open>updateGameProgress\<close>: the fields it carries are \<open>Some\<close>.\<close>

record 'c progress_updates =
  set_sessionsPlayed :: "int option"
  set_currentLevel :: "int option"
  set_bestLevel :: "int option"
  set_lastPlayed :: "string option option"
  set_custom :: "(string \<rightharpoonup> 'c) option"

record 'c progress_data =
  progress_version :: nat
  progress_profiles :: "string \<rightharpoonup> (string \<rightharpoonup> 'c progress)"

definition PROGRESS_KEY :: string where
  "PROGRESS_KEY = ''progress''"

definition makeDefault :: "'c progress" where
  "makeDefault =
     \<lparr>sessionsPlayed = 0, currentLevel = 1, bestLevel = 1, lastPlayed = None, custom = Map.empty\<rparr>"

text \<open>
  \<open>loadData\<close> and \<open>saveData\<close> of js/progress.js (the profile manager has functions of
  the same names, hence the longer names here); \<open>KEY\<close> of the two modules likewise.
\<close>

definition loadProgressData ::
    "'c progress_data localStorage \<Rightarrow> 'c progress_data \<times> 'c progress_data localStorage" where
  "loadProgressData ls =
     (case load PROGRESS_KEY ls of
        (None, ls') \<Rightarrow> (\<lparr>progress_version = 1, progress_profiles = Map.empty\<rparr>, ls')
      | (Some d, ls') \<Rightarrow> (d, ls'))"

definition saveProgressData ::
    "env \<Rightarrow> 'c progress_data \<Rightarrow> 'c progress_data localStorage \<Rightarrow> 'c progress_data localStorage" where
  "saveProgressData e data ls = snd (save e PROGRESS_KEY data ls)"

text \<open>
  What a call of the progress manager hands back where a progress record is expected:
  a record, or the built-in that the game's name is inherited as.
\<close>

datatype 'r answer = Record 'r | Builtin string

text \<open>
  How a call ends. \<open>Done x ls\<close>: it returned \<open>x\<close> and left \<open>localStorage\<close> as \<open>ls\<close>.
  \<open>Within_builtin b g\<close>: the profile's name is inherited as the built-in \<open>b\<close>, and
  the call went on with the property \<open>g\<close> of that built-in; what it returns, throws
  and saves then depends on the properties of the built-in and is not modelled.
\<close>

datatype ('a, 's) outcome = Done 'a 's | Within_builtin string string

text \<open>One call after the other, and what a call returned.\<close>

definition and_then :: "('a, 's) outcome \<Rightarrow> ('s \<Rightarrow> ('b, 's) outcome) \<Rightarrow> ('b, 's) outcome" where
  "and_then x f = (case x of Done r ls \<Rightarrow> f ls | Within_builtin b g \<Rightarrow> Within_builtin b g)"

definition returned :: "('a, 's) outcome \<Rightarrow> 'a option" where
  "returned x = (case x of Done r ls \<Rightarrow> Some r | Within_builtin b g \<Rightarrow> None)"

text \<open>
  \<open>data.profiles?.[profileId]?.[gameId] || makeDefault()\<close>. A stored record and a
  built-in are truthy; undefined at either step gives the default record.
\<close>

definition getGameProgress ::
    "string \<Rightarrow> string \<Rightarrow> 'c progress_data localStorage
      \<Rightarrow> ('c progress answer, 'c progress_data localStorage) outcome" where
  "getGameProgress profileId gameId ls =
     (case loadProgressData ls of (data, ls') \<Rightarrow>
        (case js_get (progress_profiles data) profileId of
           Missing \<Rightarrow> Done (Record makeDefault) ls'
         | Inherited b \<Rightarrow> Within_builtin b gameId
         | Own games \<Rightarrow>
             (case js_get games gameId of
                Missing \<Rightarrow> Done (Record makeDefault) ls'
              | Inherited b \<Rightarrow> Done (Builtin b) ls'
              | Own r \<Rightarrow> Done (Record r) ls')))"

text \<open>\<open>Object.assign(record, updates)\<close> on a progress record.\<close>

definition assign_progress :: "'c progress \<Rightarrow> 'c progress_updates \<Rightarrow> 'c progress" where
  "assign_progress r u =
     \<lparr>sessionsPlayed = (case set_sessionsPlayed u of None \<Rightarrow> sessionsPlayed r | Some v \<Rightarrow> v),
      currentLevel = (case set_currentLevel u of None \<Rightarrow> currentLevel r | Some v \<Rightarrow> v),
      bestLevel = (case set_bestLevel u of None \<Rightarrow> bestLevel r | Some v \<Rightarrow> v),
      lastPlayed = (case set_lastPlayed u of None \<Rightarrow> lastPlayed r | Some v \<Rightarrow> v),
      custom = (case set_custom u of None \<Rightarrow> custom r | Some v \<Rightarrow> v)\<rparr>"

text \<open>
  \<open>updateGameProgress\<close>. \<open>if (!data.profiles[profileId]) data.profiles[profileId] = {}\<close>
  creates the profile's slot when the read answers undefined; an inherited built-in is
  truthy, and the call goes on within it. In the slot,
  \<open>if (!slot[gameId]) slot[gameId] = makeDefault()\<close> creates the record when the read
  answers undefined. Then the updates are assigned, \<open>lastPlayed\<close> is stamped, the
  document is saved and the record returned. When \<open>slot[gameId]\<close> answers a built-in,
  the five fields are written on that built-in (none of them is read-only there), the
  document is saved with the slot as it is, and the built-in is returned.
\<close>

definition updateGameProgress ::
    "env \<Rightarrow> string \<Rightarrow> string \<Rightarrow> 'c progress_updates \<Rightarrow> 'c progress_data localStorage
      \<Rightarrow> ('c progress answer, 'c progress_data localStorage) outcome" where
  "updateGameProgress e profileId gameId updates ls =
     (case loadProgressData ls of (data, ls') \<Rightarrow>
        (case js_get (progress_profiles data) profileId of
           Inherited b \<Rightarrow> Within_builtin b gameId
         | found \<Rightarrow>
             (let games = (case found of Own g \<Rightarrow> g | _ \<Rightarrow> Map.empty) in
              (case js_get games gameId of
                 Inherited b \<Rightarrow>
                   (let data' = data\<lparr>progress_profiles := (progress_profiles data)(profileId \<mapsto> games)\<rparr>
                    in Done (Builtin b) (saveProgressData e data' ls'))
               | found' \<Rightarrow>
                   (let r0 = (case found' of Own r \<Rightarrow> r | _ \<Rightarrow> makeDefault);
                        r1 = assign_progress r0 updates;
                        r2 = r1\<lparr>lastPlayed := Some (nowISO e)\<rparr>;
                        data' = data\<lparr>progress_profiles :=
                                  (progress_profiles data)(profileId \<mapsto> games(gameId \<mapsto> r2))\<rparr>
                    in Done (Record r2) (saveProgressData e data' ls'))))))"

text \<open>A whole record passed as \<open>updates\<close>: every field is carried.\<close>

definition as_updates :: "'c progress \<Rightarrow> 'c progress_updates" where
  "as_updates r =
     \<lparr>set_sessionsPlayed = Some (sessionsPlayed r), set_currentLevel = Some (currentLevel r),
      set_bestLevel = Some (bestLevel r), set_lastPlayed = Some (lastPlayed r),
      set_custom = Some (custom r)\<rparr>"

text \<open>An updates object that carries none of the five fields.\<close>

definition no_progress_updates :: "'c progress_updates" where
  "no_progress_updates =
     \<lparr>set_sessionsPlayed = None, set_currentLevel = None, set_bestLevel = None,
      set_lastPlayed = None, set_custom = None\<rparr>"

text \<open>
  \<open>recordSession\<close>. On a record: \<open>sessionsPlayed++\<close>, \<open>currentLevel = level\<close>,
  \<open>if (level > progress.bestLevel) progress.bestLevel = level\<close>, and the record goes
  to \<open>updateGameProgress\<close> as the updates. When \<open>getGameProgress\<close> answered a
  built-in, the three statements work on the built-in (its \<open>bestLevel\<close> is undefined, so
  the comparison is false), and \<open>updateGameProgress\<close> is called with the built-in as
  the updates: it copies the built-in's properties onto itself, and what it saves does
  not depend on them.
\<close>

definition recordSession ::
    "env \<Rightarrow> string \<Rightarrow> string \<Rightarrow> int \<Rightarrow> 'c progress_data localStorage
      \<Rightarrow> ('c progress answer, 'c progress_data localStorage) outcome" where
  "recordSession e profileId gameId level ls =
     (case getGameProgress profileId gameId ls of
        Done (Record progress) ls' \<Rightarrow>
          (let p1 = progress\<lparr>sessionsPlayed := increment (sessionsPlayed progress)\<rparr>;
               p2 = p1\<lparr>currentLevel := level\<rparr>;
               p3 = (if level > bestLevel p2 then p2\<lparr>bestLevel := level\<rparr> else p2)
           in updateGameProgress e profileId gameId (as_updates p3) ls')
      | Done (Builtin b) ls' \<Rightarrow> updateGameProgress e profileId gameId no_progress_updates ls'
      | Within_builtin b g \<Rightarrow> Within_builtin b g)"

text \<open>\<open>data.profiles?.[profileId] || {}\<close>\<close>

definition getAllProgress ::
    "string \<Rightarrow> 'c progress_data localStorage
      \<Rightarrow> (string \<rightharpoonup> 'c progress) property \<times> 'c progress_data localStorage" where
  "getAllProgress profileId ls =
     (case loadProgressData ls of (data, ls') \<Rightarrow>
        (case js_get (progress_profiles data) profileId of
           Missing \<Rightarrow> (Own Map.empty, ls')
         | Inherited b \<Rightarrow> (Inherited b, ls')
         | Own games \<Rightarrow> (Own games, ls')))"

text \<open>The raw entry of the stored document for a pair, as \<open>load\<close> shows it.\<close>

definition stored_entry ::
    "string \<Rightarrow> string \<Rightarrow> 'c progress_data localStorage \<Rightarrow> 'c progress option" where
  "stored_entry profileId gameId ls =
     (case fst (load PROGRESS_KEY ls) of
        None \<Rightarrow> None
      | Some data \<Rightarrow>
          (case progress_profiles data profileId of
             None \<Rightarrow> None
           | Some games \<Rightarrow> games gameId))"

section \<open>App controller (js/app.js)\<close>

text \<open>
  The function handed to \<open>showScreen\<close> builds one of four screens; the one that
  \<open>launchGame\<close> hands over also sets \<open>activeGame\<close> and calls the game's \<open>init\<close>.
  A game module is referred to by its key in the registry.
\<close>

datatype screen = Welcome | Menu | Category string | Game string

text \<open>What the controller does that a game module or the page can observe, in order.\<close>

datatype call = Destroy string | Render screen | Init string

text \<open>
  The controller's state: the variable \<open>activeGame\<close>, the callbacks that \<open>showScreen\<close>
  has scheduled with \<open>setTimeout(..., 200)\<close> and that have not run yet (equal delays:
  they run in the order in which they were scheduled), and the calls made so far.
\<close>

record app =
  activeGame :: "string option"
  timeouts :: "screen list"
  calls :: "call list"

definition initial_app :: app where
  "initial_app = \<lparr>activeGame = None, timeouts = [], calls = []\<rparr>"

text \<open>
  \<open>showScreen(renderFn)\<close>: tears down the game that \<open>activeGame\<close> holds, clears the
  variable, and schedules the swap of the content.
\<close>

definition showScreen :: "screen \<Rightarrow> app \<Rightarrow> app" where
  "showScreen renderFn a =
     (let a1 = (case activeGame a of
                  Some game \<Rightarrow> a\<lparr>calls := calls a @ [Destroy game], activeGame := None\<rparr>
                | None \<Rightarrow> a)
      in a1\<lparr>timeouts := timeouts a1 @ [renderFn]\<rparr>)"

text \<open>
  The scheduled callback: \<open>app.innerHTML = ''; renderFn(app)\<close>. For a game screen
  \<open>renderFn\<close> ends with \<open>activeGame = game; game.init(gameContainer, callbacks)\<close>.
\<close>

definition render :: "screen \<Rightarrow> app \<Rightarrow> app" where
  "render renderFn a =
     (case renderFn of
        Game g \<Rightarrow> a\<lparr>calls := calls a @ [Render (Game g), Init g], activeGame := Some g\<rparr>
      | _ \<Rightarrow> a\<lparr>calls := calls a @ [Render renderFn]\<rparr>)"

text \<open>The earliest scheduled callback runs.\<close>

definition timeout :: "app \<Rightarrow> app" where
  "timeout a = (case timeouts a of [] \<Rightarrow> a | r # rs \<Rightarrow> render r (a\<lparr>timeouts := rs\<rparr>))"

text \<open>
  \<open>launchGame(gameId)\<close>. The \<open>await\<close> of \<open>getActiveProfile\<close> resumes in a microtask,
  before any timer or click, so the function runs as one step.
\<close>

definition launchGame :: "'f games \<Rightarrow> string \<Rightarrow> app \<Rightarrow> app" where
  "launchGame games gameId a =
     (case get games gameId of
        None \<Rightarrow> a
      | Some game \<Rightarrow> showScreen (Game gameId) a)"

definition renderWelcome :: "app \<Rightarrow> app" where
  "renderWelcome a = showScreen Welcome a"

definition renderMenu :: "profiles_data localStorage \<Rightarrow> app \<Rightarrow> app" where
  "renderMenu ls a =
     (case fst (getActiveProfile ls) of
        Missing \<Rightarrow> renderWelcome a
      | Own profile \<Rightarrow> showScreen Menu a
      | Inherited b \<Rightarrow> showScreen Menu a)"

definition renderCategory :: "string \<Rightarrow> app \<Rightarrow> app" where
  "renderCategory categoryId a = showScreen (Category categoryId) a"

text \<open>
  What drives the controller: a tap on a game tile, on a back or exit button, on a
  category tile, and a timer that fires.
\<close>

datatype event = LaunchGame string | RenderMenu | RenderCategory string | Timeout

fun step :: "'f games \<Rightarrow> profiles_data localStorage \<Rightarrow> app \<Rightarrow> event \<Rightarrow> app" where
  "step games ls a (LaunchGame gameId) = launchGame games gameId a"
| "step games ls a RenderMenu = renderMenu ls a"
| "step games ls a (RenderCategory categoryId) = renderCategory categoryId a"
| "step games ls a Timeout = timeout a"

definition run :: "'f games \<Rightarrow> profiles_data localStorage \<Rightarrow> event list \<Rightarrow> app \<Rightarrow> app" where
  "run games ls events a = foldl (step games ls) a events"

text \<open>
  The game modules that are mounted after a sequence of calls: those whose \<open>init\<close> was
  called and whose \<open>destroy\<close> has not been called since.
\<close>

fun mounted :: "call list \<Rightarrow> string list \<Rightarrow> string list" where
  "mounted [] m = m"
| "mounted (Init g # cs) m = mounted cs (if g \<in> set m then m else m @ [g])"
| "mounted (Destroy g # cs) m = mounted cs (removeAll g m)"
| "mounted (Render r # cs) m = mounted cs m"

section \<open>Sample inputs\<close>

text \<open>
  Two browsers, used where a property is evaluated on a concrete input: one whose
  \<open>localStorage\<close> accepts the write, one in which \<open>setItem\<close> throws (quota exceeded).
\<close>

definition env_ok :: env where
  "env_ok = \<lparr>setItem_ok = True, now = 1730000000000, random36 = ''0.4fzyo82mvyr'',
      nowISO = ''2026-11-03T10:00:00.000Z''\<rparr>"

definition env_quota_exceeded :: env where
  "env_quota_exceeded = env_ok\<lparr>setItem_ok := False\<rparr>"

definition mia :: profile where
  "mia = \<lparr>profile_id = ''p_m2r1bz7k4fzyo'', name = ''Mia'', avatar = ''panda'',
      createdAt = ''2026-11-03T10:00:00.000Z''\<rparr>"

definition leo :: profile where
  "leo = \<lparr>profile_id = ''p_m2r1c00000abc'', name = ''Leo'', avatar = ''fox'',
      createdAt = ''2026-11-03T10:05:00.000Z''\<rparr>"

text \<open>A \<open>localStorage\<close> whose profiles document holds Mia and Leo, Mia active.\<close>

definition two_profiles :: "profiles_data localStorage" where
  "two_profiles =
     [PREFIX @ PROFILES_KEY \<mapsto>
        \<lparr>version = 1, active = Some ''p_m2r1bz7k4fzyo'',
         profiles = [(''p_m2r1bz7k4fzyo'', mia), (''p_m2r1c00000abc'', leo)]\<rparr>]"

text \<open>
  A \<open>localStorage\<close> whose progress document holds one record, of Mia for the game
  feed-monster, with the given session count and best level.
\<close>

definition one_record :: "int \<Rightarrow> int \<Rightarrow> nat progress_data localStorage" where
  "one_record n b =
     [PREFIX @ PROGRESS_KEY \<mapsto>
        \<lparr>progress_version = 1,
         progress_profiles =
           [''p_m2r1bz7k4fzyo'' \<mapsto>
              [''feed-monster'' \<mapsto>
                 \<lparr>sessionsPlayed = n, currentLevel = b, bestLevel = b,
                  lastPlayed = Some ''2026-11-02T09:00:00.000Z'', custom = Map.empty\<rparr>]]\<rparr>]"

text \<open>The second placeholder of js/games/coming-soon.js, and a registry holding both.\<close>

definition story_bubbles :: "nat game_config" where
  "story_bubbles =
     \<lparr>game_id = Some ''story-bubbles'', title = ''Story Bubbles'', category = ''reading'',
      thumbnail = ''U+1F4AC'', description = ''Pop bubbles to build a story!'', ageRange = (4, 8),
      init = Some 2, destroy = Some 3\<rparr>"

definition two_games :: "nat games" where
  "two_games = [(''letter-safari'', letter_safari), (''story-bubbles'', story_bubbles)]"

section \<open>Properties of the registry\<close>

lemma register_rejected:
  "game_id c = None \<or> game_id c = Some [] \<or> init c = None \<or> destroy c = None \<Longrightarrow>
   \<exists>e. register c gs = (Inl e, gs)"
  by (auto simp: register_def falsy_id_def)

lemma register_accepted:
  "game_id c = Some i \<Longrightarrow> i \<noteq> [] \<Longrightarrow> init c \<noteq> None \<Longrightarrow> destroy c \<noteq> None \<Longrightarrow>
   register c gs = (Inr (), AList.update i c gs)"
  by (auto simp: register_def falsy_id_def)

text \<open>
  C3, as the code has it. \<open>register\<close> throws, and leaves \<open>games\<close> as it was, when the id
  is absent or the empty string or when \<open>init\<close> or \<open>destroy\<close> is absent. For every other
  config it returns normally, the entry under the config's id is the config, every other
  entry is untouched, and the id keeps its place among the keys or is appended.
\<close>

theorem register_validates:
  "(game_id c = None \<or> game_id c = Some [] \<or> init c = None \<or> destroy c = None
      \<longrightarrow> (\<exists>e. register c gs = (Inl e, gs))) \<and>
   (game_id c = Some i \<and> i \<noteq> [] \<and> init c \<noteq> None \<and> destroy c \<noteq> None
      \<longrightarrow> fst (register c gs) = Inr () \<and>
          map_of (snd (register c gs)) = (map_of gs)(i \<mapsto> c) \<and>
          map fst (snd (register c gs)) =
            (if i \<in> set (map fst gs) then map fst gs else map fst gs @ [i]))"
  using register_rejected[of c gs] register_accepted[of c i gs]
  by (auto simp: update_conv' update_keys simp del: map_map)

theorem register_validates_witness:
  "(\<exists>e. register (letter_safari\<lparr>init := None\<rparr>) [] = (Inl e, [])) \<and>
   fst (register letter_safari []) = Inr () \<and>
   map fst (snd (register letter_safari [])) = [''letter-safari'']"
  using register_validates[of "letter_safari\<lparr>init := None\<rparr>" "[]" "''x''"]
        register_validates[of letter_safari "[]" "''letter-safari''"]
  by (simp add: letter_safari_def)

text \<open>
  C3 as the specification words it fails for a config whose id is the empty string: id,
  \<open>init\<close> and \<open>destroy\<close> are all present, and \<open>register\<close> throws.
\<close>

theorem register_empty_id_counterexample:
  "game_id (letter_safari\<lparr>game_id := Some []\<rparr>) \<noteq> None \<and>
   init (letter_safari\<lparr>game_id := Some []\<rparr>) \<noteq> None \<and>
   destroy (letter_safari\<lparr>game_id := Some []\<rparr>) \<noteq> None \<and>
   register (letter_safari\<lparr>game_id := Some []\<rparr>) [] =
     (Inl (Error ''Game registration requires id, init, destroy. Got: ''), [])"
  by (simp add: letter_safari_def register_def falsy_id_def show_id_def)

text \<open>
  C8, as the code has it. A config with a non-empty id and with \<open>init\<close> and \<open>destroy\<close>
  present is registered, and is what \<open>get\<close> returns under its id afterwards; \<open>get\<close>
  on an id that is not a key of \<open>games\<close> returns null. \<open>get\<close> has no throwing branch.
\<close>

theorem register_then_get:
  "(game_id d = Some i \<and> i \<noteq> [] \<and> init d \<noteq> None \<and> destroy d \<noteq> None
      \<longrightarrow> fst (register d gs) = Inr () \<and> get (snd (register d gs)) i = Some d) \<and>
   (j \<notin> fst ` set gs \<longrightarrow> get gs j = None)"
  using register_accepted[of d i gs]
  by (auto simp: get_def update_conv' map_of_eq_None_iff)

theorem register_then_get_witness:
  "fst (register letter_safari initial_games) = Inr () \<and>
   get (snd (register letter_safari initial_games)) ''letter-safari'' = Some letter_safari \<and>
   get (snd (register letter_safari initial_games)) ''number-hop'' = None"
  using register_then_get[of letter_safari "''letter-safari''" initial_games "''zzz''"]
        register_then_get[of letter_safari "''letter-safari''"
          "snd (register letter_safari initial_games)" "''number-hop''"]
  by (simp add: letter_safari_def initial_games_def register_def falsy_id_def)

text \<open>
  C8 as the specification words it fails for a config whose id is the empty string: id,
  \<open>init\<close> and \<open>destroy\<close> are present, \<open>register\<close> throws, and \<open>get\<close> under the
  config's id returns null, not the config.
\<close>

theorem register_then_get_empty_id_counterexample:
  "game_id (story_bubbles\<lparr>game_id := Some []\<rparr>) = Some [] \<and>
   init (story_bubbles\<lparr>game_id := Some []\<rparr>) = Some 2 \<and>
   destroy (story_bubbles\<lparr>game_id := Some []\<rparr>) = Some 3 \<and>
   fst (register (story_bubbles\<lparr>game_id := Some []\<rparr>) initial_games) =
     Inl (Error ''Game registration requires id, init, destroy. Got: '') \<and>
   get (snd (register (story_bubbles\<lparr>game_id := Some []\<rparr>) initial_games)) [] = None"
  by (simp add: story_bubbles_def register_def falsy_id_def show_id_def initial_games_def get_def)

lemma getCategories_subseq:
  "subseq (getCategories cs gs) (registered_categories cs)"
  by (simp add: getCategories_def registered_categories_def)

lemma update_in_set: "(k, v) \<in> set (AList.update k v al)"
  by (induction al) auto

lemma registered_game_listed:
  assumes "register g gs = (Inr (), gs')"
  shows "g \<in> set (getAll gs')"
proof -
  from assms have "gs' = AList.update (the (game_id g)) g gs"
    by (auto simp: register_def split: if_splits)
  then have "(the (game_id g), g) \<in> set gs'"
    by (simp add: update_in_set)
  then show ?thesis
    by (force simp: getAll_def)
qed

text \<open>
  \<open>addCategory\<close> keeps the place of an id that is already registered and appends a new
  one: the list of categories is in the order of first registration.
\<close>

lemma addCategory_order:
  "map fst (addCategory i l ic c cs) = (if i \<in> fst ` set cs then map fst cs else map fst cs @ [i])"
  by (simp add: addCategory_def update_keys del: map_map)

text \<open>
  C5. \<open>getCategories\<close> returns exactly the registered categories to which some
  registered game belongs, as a subsequence of the categories in registration order;
  a category for which \<open>getByCategory\<close> is empty is not returned, and it is returned
  as soon as a game of that category has been registered.
\<close>

theorem getCategories_populated:
  "set (getCategories cs gs) =
     {c \<in> set (registered_categories cs). \<exists>g \<in> set (getAll gs). category g = cat_id c} \<and>
   subseq (getCategories cs gs) (registered_categories cs) \<and>
   (c \<in> set (registered_categories cs) \<and> getByCategory gs (cat_id c) = [] \<and>
    register g gs = (Inr (), gs') \<and> category g = cat_id c
      \<longrightarrow> c \<notin> set (getCategories cs gs) \<and> c \<in> set (getCategories cs gs'))"
proof (intro conjI impI)
  show "set (getCategories cs gs) =
      {c \<in> set (registered_categories cs). \<exists>g \<in> set (getAll gs). category g = cat_id c}"
    by (auto simp: getCategories_def getByCategory_def registered_categories_def filter_empty_conv)
  show "subseq (getCategories cs gs) (registered_categories cs)"
    by (rule getCategories_subseq)
next
  assume a: "c \<in> set (registered_categories cs) \<and> getByCategory gs (cat_id c) = [] \<and>
    register g gs = (Inr (), gs') \<and> category g = cat_id c"
  then show "c \<notin> set (getCategories cs gs)"
    by (simp add: getCategories_def)
  from a have "g \<in> set (getAll gs')"
    using registered_game_listed[of g gs gs'] by simp
  with a have "g \<in> set (getByCategory gs' (cat_id c))"
    by (simp add: getByCategory_def)
  then have "getByCategory gs' (cat_id c) \<noteq> []"
    by auto
  with a show "c \<in> set (getCategories cs gs')"
    by (simp add: getCategories_def registered_categories_def)
qed

theorem getCategories_populated_witness:
  "getCategories initial_categories (initial_games :: nat games) = [] \<and>
   getCategories initial_categories (snd (register letter_safari initial_games)) =
     [\<lparr>cat_id = ''reading'', label = ''Reading'', icon = ''U+1F4D6'', color = ''#54A0FF''\<rparr>] \<and>
   \<lparr>cat_id = ''reading'', label = ''Reading'', icon = ''U+1F4D6'', color = ''#54A0FF''\<rparr>
     \<in> set (getCategories initial_categories (snd (register letter_safari initial_games)))"
  using getCategories_populated[of initial_categories "initial_games :: nat games"
     "\<lparr>cat_id = ''reading'', label = ''Reading'', icon = ''U+1F4D6'', color = ''#54A0FF''\<rparr>"
     letter_safari "snd (register letter_safari initial_games)"]
  by (simp add: letter_safari_def initial_games_def initial_categories_def register_def
      falsy_id_def getCategories_def getByCategory_def getAll_def registered_categories_def)

section \<open>Properties of the profile manager\<close>

lemma loadData_snd [simp]: "snd (loadData ls) = ls"
  by (simp add: loadData_def load_def split: option.splits)

lemma loadData_saveData:
  "setItem_ok e \<Longrightarrow> loadData (saveData e d ls) = (d, saveData e d ls)"
  by (simp add: loadData_def saveData_def save_def load_def)

lemma saveData_failed: "\<not> setItem_ok e \<Longrightarrow> saveData e d ls = ls"
  by (simp add: saveData_def save_def)

lemma js_get_own: "m i = Some v \<Longrightarrow> js_get m i = Own v"
  by (simp add: js_get_def)

lemma js_get_missing: "m i = None \<Longrightarrow> i \<notin> set Object_prototype \<Longrightarrow> js_get m i = Missing"
  by (simp add: js_get_def)

lemma generateId_nonempty: "generateId e \<noteq> []"
  by (simp add: generateId_def)

lemma generateId_env_ok: "generateId env_ok = ''p_m2r1bz7k4fzyo''"
  by (simp add: generateId_def env_ok_def toString36.simps digit36_def)

lemma update_new_key: "k \<notin> fst ` set al \<Longrightarrow> AList.update k v al = al @ [(k, v)]"
  by (induction al) auto

text \<open>
  C2, as the code has it. \<open>createProfile\<close> always returns the new profile, built from
  the generated id, the name, the avatar and the clock. The id is not checked against
  the keys of the collection. When the save succeeds the stored document has the profile
  under its id (every other entry as before), the active pointer is the id and
  \<open>getActiveProfile\<close> returns the profile; when the id was not a key before, the
  collection is the one before with the profile appended. When the save fails, \<open>save\<close>
  reports false, the stored state is as before and no error reaches the caller.
\<close>

theorem createProfile_swallows_save_failure:
  "fst (createProfile e nm (Some av) ls) =
     \<lparr>profile_id = generateId e, name = nm, avatar = av, createdAt = nowISO e\<rparr> \<and>
   (setItem_ok e \<longrightarrow>
      active (fst (loadData (snd (createProfile e nm (Some av) ls)))) = Some (generateId e) \<and>
      map_of (profiles (fst (loadData (snd (createProfile e nm (Some av) ls))))) =
        (map_of (profiles (fst (loadData ls))))(generateId e \<mapsto> fst (createProfile e nm (Some av) ls)) \<and>
      fst (getActiveProfile (snd (createProfile e nm (Some av) ls))) =
        Own (fst (createProfile e nm (Some av) ls)) \<and>
      (generateId e \<notin> fst ` set (profiles (fst (loadData ls))) \<longrightarrow>
         profiles (fst (loadData (snd (createProfile e nm (Some av) ls)))) =
           profiles (fst (loadData ls)) @ [(generateId e, fst (createProfile e nm (Some av) ls))])) \<and>
   (\<not> setItem_ok e \<longrightarrow>
      fst (save e PROFILES_KEY d ls) = False \<and> snd (createProfile e nm (Some av) ls) = ls)"
  by (cases "loadData ls")
     (auto simp: createProfile_def Let_def loadData_saveData saveData_failed getActiveProfile_def
        update_conv' generateId_nonempty js_get_own update_new_key save_def
        dest: arg_cong[where f=snd])

theorem createProfile_swallows_save_failure_witness:
  "fst (createProfile env_ok ''Mia'' (Some ''panda'') Map.empty) =
     \<lparr>profile_id = generateId env_ok, name = ''Mia'', avatar = ''panda'',
      createdAt = ''2026-11-03T10:00:00.000Z''\<rparr> \<and>
   active (fst (loadData (snd (createProfile env_ok ''Mia'' (Some ''panda'') Map.empty)))) =
     Some (generateId env_ok) \<and>
   fst (getActiveProfile (snd (createProfile env_ok ''Mia'' (Some ''panda'') Map.empty))) =
     Own (fst (createProfile env_ok ''Mia'' (Some ''panda'') Map.empty)) \<and>
   profiles (fst (loadData (snd (createProfile env_ok ''Mia'' (Some ''panda'') Map.empty)))) =
     [(generateId env_ok, fst (createProfile env_ok ''Mia'' (Some ''panda'') Map.empty))] \<and>
   fst (save env_quota_exceeded PROFILES_KEY (fst (loadData Map.empty)) Map.empty) = False \<and>
   snd (createProfile env_quota_exceeded ''Mia'' (Some ''panda'') Map.empty) = Map.empty"
  using createProfile_swallows_save_failure[of env_ok "''Mia''" "''panda''" Map.empty]
        createProfile_swallows_save_failure[of env_quota_exceeded "''Mia''" "''panda''" Map.empty
          "fst (loadData Map.empty)"]
  by (simp add: env_ok_def env_quota_exceeded_def loadData_def load_def)

text \<open>
  C2 as the specification words it fails in two ways. When \<open>setItem\<close> throws, \<open>save\<close>
  reports false and \<open>createProfile\<close> returns the new profile all the same, with
  nothing stored. And the id is not fresh when the clock and the random digits repeat
  those of a stored profile: Mia's profile is overwritten by the new one.
\<close>

theorem createProfile_save_failure_counterexample:
  "fst (save env_quota_exceeded PROFILES_KEY
        \<lparr>version = 1, active = Some ''p_m2r1bz7k4fzyo'',
         profiles = [(''p_m2r1bz7k4fzyo'', mia)]\<rparr> Map.empty) = False \<and>
   createProfile env_quota_exceeded ''Mia'' (Some ''panda'') Map.empty = (mia, Map.empty) \<and>
   fst (getAllProfiles two_profiles) = [mia, leo] \<and>
   fst (createProfile env_ok ''Zoe'' (Some ''owl'') two_profiles) =
     \<lparr>profile_id = ''p_m2r1bz7k4fzyo'', name = ''Zoe'', avatar = ''owl'',
      createdAt = ''2026-11-03T10:00:00.000Z''\<rparr> \<and>
   fst (getAllProfiles (snd (createProfile env_ok ''Zoe'' (Some ''owl'') two_profiles))) =
     [\<lparr>profile_id = ''p_m2r1bz7k4fzyo'', name = ''Zoe'', avatar = ''owl'',
       createdAt = ''2026-11-03T10:00:00.000Z''\<rparr>, leo]"
  using generateId_env_ok
  by (simp add: createProfile_def loadData_def load_def saveData_def save_def
      env_quota_exceeded_def env_ok_def generateId_def Let_def mia_def leo_def two_profiles_def
      getAllProfiles_def)

text \<open>
  C7 does not hold of the code. \<open>data.profiles[id]\<close> also answers with a member of
  \<open>Object.prototype\<close>: for the id \<open>constructor\<close>, which is not a key of the
  collection, \<open>setActiveProfile\<close> returns true and stores the id as the active
  pointer, and \<open>getActiveProfile\<close>, which returned Mia before, returns the inherited
  \<open>Object\<close> function afterwards.
\<close>

theorem setActiveProfile_accepts_inherited_name:
  "''constructor'' \<notin> fst ` set (profiles (fst (loadData two_profiles))) \<and>
   fst (getActiveProfile two_profiles) = Own mia \<and>
   fst (setActiveProfile env_ok ''constructor'' two_profiles) = True \<and>
   active (fst (loadData (snd (setActiveProfile env_ok ''constructor'' two_profiles)))) =
     Some ''constructor'' \<and>
   fst (getActiveProfile (snd (setActiveProfile env_ok ''constructor'' two_profiles))) =
     Inherited ''constructor''"
  by (simp add: two_profiles_def loadData_def load_def getActiveProfile_def env_ok_def
      setActiveProfile_def js_get_def Object_prototype_def saveData_def save_def mia_def leo_def)

text \<open>
  For an id that is not the name of a member of \<open>Object.prototype\<close> the guard does
  what it is meant to do.
\<close>

lemma setActiveProfile_guard:
  "i \<notin> set Object_prototype \<Longrightarrow>
   fst (setActiveProfile e i ls) = (i \<in> fst ` set (profiles (fst (loadData ls)))) \<and>
   (i \<notin> fst ` set (profiles (fst (loadData ls))) \<longrightarrow>
      snd (setActiveProfile e i ls) = ls \<and>
      getActiveProfile (snd (setActiveProfile e i ls)) = getActiveProfile ls)"
proof (cases "map_of (profiles (fst (loadData ls))) i")
  case None
  assume "i \<notin> set Object_prototype"
  with None have "js_get (map_of (profiles (fst (loadData ls)))) i = Missing"
    by (simp add: js_get_missing)
  then have "setActiveProfile e i ls = (False, ls)"
    by (cases "loadData ls") (auto simp: setActiveProfile_def dest: arg_cong[where f=snd])
  with None show ?thesis
    by (simp add: map_of_eq_None_iff)
next
  case (Some p)
  then have "js_get (map_of (profiles (fst (loadData ls)))) i = Own p"
    by (simp add: js_get_own)
  then have "fst (setActiveProfile e i ls) = True"
    by (cases "loadData ls") (auto simp: setActiveProfile_def)
  moreover from Some have "i \<in> fst ` set (profiles (fst (loadData ls)))"
    by (meson domI domIff map_of_eq_None_iff)
  ultimately show ?thesis by simp
qed

lemma update_existing:
  "map_of al k = Some v \<Longrightarrow>
   \<exists>j<length al. al ! j = (k, v) \<and> AList.update k v' al = al[j := (k, v')]"
proof (induction al)
  case Nil
  then show ?case by simp
next
  case (Cons a al)
  show ?case
  proof (cases "fst a = k")
    case True
    with Cons.prems have "a = (k, v)" by (cases a) simp
    then have "(a # al) ! 0 = (k, v) \<and> AList.update k v' (a # al) = (a # al)[0 := (k, v')]"
      by simp
    then show ?thesis by blast
  next
    case False
    with Cons.prems have "map_of al k = Some v" by (cases a) auto
    from Cons.IH[OF this] obtain j where
      j: "j < length al" "al ! j = (k, v)" "AList.update k v' al = al[j := (k, v')]"
      by blast
    with False have "Suc j < length (a # al) \<and> (a # al) ! Suc j = (k, v) \<and>
        AList.update k v' (a # al) = (a # al)[Suc j := (k, v')]"
      by (cases a) auto
    then show ?thesis by blast
  qed
qed

lemma no_profile_with_foreign_id:
  "i \<notin> fst ` set ps \<Longrightarrow> list_all (\<lambda>kp. profile_id (snd kp) = fst kp) ps \<Longrightarrow>
   filter (\<lambda>q. profile_id q = i) (map snd ps) = []"
  by (induction ps) auto

lemma one_profile_with_id:
  "distinct (map fst ps) \<Longrightarrow> list_all (\<lambda>kp. profile_id (snd kp) = fst kp) ps \<Longrightarrow>
   map_of ps i = Some p \<Longrightarrow> profile_id p' = i \<Longrightarrow>
   filter (\<lambda>q. profile_id q = i) (map snd (AList.update i p' ps)) = [p']"
proof (induction ps)
  case Nil
  then show ?case by simp
next
  case (Cons a ps)
  show ?case
  proof (cases "fst a = i")
    case True
    with Cons.prems have "i \<notin> fst ` set ps" by auto
    with Cons.prems have "filter (\<lambda>q. profile_id q = i) (map snd ps) = []"
      by (simp add: no_profile_with_foreign_id)
    with True Cons.prems show ?thesis by (cases a) simp
  next
    case False
    with Cons.prems have "map_of ps i = Some p" by (cases a) auto
    with Cons.prems Cons.IH have
      "filter (\<lambda>q. profile_id q = i) (map snd (AList.update i p' ps)) = [p']"
      by simp
    with False Cons.prems show ?thesis by (cases a) auto
  qed
qed

lemma updateProfile_known:
  "map_of (profiles (fst (loadData ls))) i = Some p \<Longrightarrow>
   updateProfile e i u ls =
     (Inr (Own (assign_profile p u)),
      saveData e ((fst (loadData ls))\<lparr>profiles := AList.update i (assign_profile p u) (profiles (fst (loadData ls)))\<rparr>) ls)"
  by (cases "loadData ls")
     (auto simp: updateProfile_def Let_def js_get_own dest: arg_cong[where f=snd])

lemma updateProfile_unknown:
  "map_of (profiles (fst (loadData ls))) i = None \<Longrightarrow> i \<notin> set Object_prototype \<Longrightarrow>
   updateProfile e i u ls = (Inr Missing, ls)"
  by (cases "loadData ls")
     (auto simp: updateProfile_def js_get_missing dest: arg_cong[where f=snd])

lemma updateProfile_stored:
  "map_of (profiles (fst (loadData ls))) i = Some p \<Longrightarrow> setItem_ok e \<Longrightarrow>
   profiles (fst (loadData (snd (updateProfile e i u ls)))) =
     AList.update i (assign_profile p u) (profiles (fst (loadData ls)))"
  by (simp add: updateProfile_known loadData_saveData)

lemma updateProfile_not_stored:
  "map_of (profiles (fst (loadData ls))) i = Some p \<Longrightarrow> \<not> setItem_ok e \<Longrightarrow>
   snd (updateProfile e i u ls) = ls"
  by (simp add: updateProfile_known saveData_failed)

lemma getAllProfiles_fst: "fst (getAllProfiles ls) = map snd (profiles (fst (loadData ls)))"
  by (cases "loadData ls") (simp add: getAllProfiles_def)

lemma assign_name: "assign_profile p (only_name n) = p\<lparr>name := n\<rparr>"
  by (simp add: assign_profile_def only_name_def no_updates_def)

lemma assign_id: "assign_profile p (only_id i) = p\<lparr>profile_id := i\<rparr>"
  by (simp add: assign_profile_def only_id_def no_updates_def)

text \<open>
  C9, as the code has it. For an id of the collection, \<open>updateProfile\<close> with
  \<open>{name: n}\<close> returns the profile with the new name and its id, avatar and createdAt
  as before. When the save succeeds, \<open>getAllProfiles\<close> afterwards is the list before
  with exactly that one position replaced, and in a collection keyed by id it shows
  exactly one profile with this id, the updated one. When the save fails, the stored
  state and \<open>getAllProfiles\<close> are as before. For an id that is neither a key of the
  collection nor the name of a member of \<open>Object.prototype\<close>, \<open>updateProfile\<close> returns
  null and leaves the stored state as it was.
\<close>

theorem updateProfile_name_roundtrip:
  "(map_of (profiles (fst (loadData ls))) i = Some p \<longrightarrow>
      fst (updateProfile e i (only_name n) ls) = Inr (Own (p\<lparr>name := n\<rparr>)) \<and>
      profile_id (p\<lparr>name := n\<rparr>) = profile_id p \<and> avatar (p\<lparr>name := n\<rparr>) = avatar p \<and>
      createdAt (p\<lparr>name := n\<rparr>) = createdAt p \<and>
      (setItem_ok e \<longrightarrow>
         (\<exists>k<length (fst (getAllProfiles ls)).
            fst (getAllProfiles ls) ! k = p \<and>
            fst (getAllProfiles (snd (updateProfile e i (only_name n) ls))) =
              (fst (getAllProfiles ls))[k := p\<lparr>name := n\<rparr>]) \<and>
         (keyed_by_id (profiles (fst (loadData ls))) \<longrightarrow>
            filter (\<lambda>q. profile_id q = i)
              (fst (getAllProfiles (snd (updateProfile e i (only_name n) ls)))) = [p\<lparr>name := n\<rparr>])) \<and>
      (\<not> setItem_ok e \<longrightarrow>
         snd (updateProfile e i (only_name n) ls) = ls \<and>
         fst (getAllProfiles (snd (updateProfile e i (only_name n) ls))) = fst (getAllProfiles ls))) \<and>
   (map_of (profiles (fst (loadData ls))) i = None \<and> i \<notin> set Object_prototype \<longrightarrow>
      updateProfile e i u ls = (Inr Missing, ls))"
proof (intro conjI impI)
  assume "map_of (profiles (fst (loadData ls))) i = None \<and> i \<notin> set Object_prototype"
  then show "updateProfile e i u ls = (Inr Missing, ls)"
    by (simp add: updateProfile_unknown)
next
  show "profile_id (p\<lparr>name := n\<rparr>) = profile_id p" "avatar (p\<lparr>name := n\<rparr>) = avatar p"
    "createdAt (p\<lparr>name := n\<rparr>) = createdAt p"
    by simp_all
next
  assume a: "map_of (profiles (fst (loadData ls))) i = Some p"
  then show "fst (updateProfile e i (only_name n) ls) = Inr (Own (p\<lparr>name := n\<rparr>))"
    by (simp add: updateProfile_known assign_name)
  {
    assume "\<not> setItem_ok e"
    with a show "snd (updateProfile e i (only_name n) ls) = ls"
      by (simp add: updateProfile_not_stored)
    then show "fst (getAllProfiles (snd (updateProfile e i (only_name n) ls))) = fst (getAllProfiles ls)"
      by simp
  }
  assume ok: "setItem_ok e"
  let ?ps = "profiles (fst (loadData ls))"
  let ?ls' = "snd (updateProfile e i (only_name n) ls)"
  from a ok have stored: "profiles (fst (loadData ?ls')) = AList.update i (p\<lparr>name := n\<rparr>) ?ps"
    by (simp add: updateProfile_stored assign_name)
  from a obtain k where k: "k < length ?ps" "?ps ! k = (i, p)"
      "AList.update i (p\<lparr>name := n\<rparr>) ?ps = ?ps[k := (i, p\<lparr>name := n\<rparr>)]"
    using update_existing[of ?ps i p "p\<lparr>name := n\<rparr>"] by blast
  then have "k < length (fst (getAllProfiles ls)) \<and> fst (getAllProfiles ls) ! k = p \<and>
      fst (getAllProfiles ?ls') = (fst (getAllProfiles ls))[k := p\<lparr>name := n\<rparr>]"
    by (simp add: getAllProfiles_fst stored map_update)
  then show "\<exists>k<length (fst (getAllProfiles ls)).
          fst (getAllProfiles ls) ! k = p \<and>
          fst (getAllProfiles ?ls') = (fst (getAllProfiles ls))[k := p\<lparr>name := n\<rparr>]"
    by blast
  {
    assume wf: "keyed_by_id ?ps"
    from a have "(i, p) \<in> set ?ps" by (simp add: map_of_SomeD)
    with wf have "profile_id p = i"
      by (auto simp: keyed_by_id_def list_all_iff)
    with wf a have "filter (\<lambda>q. profile_id q = i) (map snd (AList.update i (p\<lparr>name := n\<rparr>) ?ps))
        = [p\<lparr>name := n\<rparr>]"
      using one_profile_with_id[of ?ps i p "p\<lparr>name := n\<rparr>"] by (simp add: keyed_by_id_def)
    then show "filter (\<lambda>q. profile_id q = i) (fst (getAllProfiles ?ls')) = [p\<lparr>name := n\<rparr>]"
      by (simp add: getAllProfiles_fst stored)
  }
qed

theorem updateProfile_name_roundtrip_witness:
  "fst (updateProfile env_ok ''p_m2r1c00000abc'' (only_name ''New'') two_profiles) =
     Inr (Own (leo\<lparr>name := ''New''\<rparr>)) \<and>
   filter (\<lambda>q. profile_id q = ''p_m2r1c00000abc'')
     (fst (getAllProfiles (snd (updateProfile env_ok ''p_m2r1c00000abc'' (only_name ''New'') two_profiles))))
     = [leo\<lparr>name := ''New''\<rparr>] \<and>
   fst (getAllProfiles (snd (updateProfile env_ok ''p_m2r1c00000abc'' (only_name ''New'') two_profiles)))
     = [mia, leo\<lparr>name := ''New''\<rparr>] \<and>
   snd (updateProfile env_quota_exceeded ''p_m2r1c00000abc'' (only_name ''New'') two_profiles) =
     two_profiles \<and>
   updateProfile env_ok ''p_unknown'' (only_name ''New'') two_profiles = (Inr Missing, two_profiles)"
  using updateProfile_name_roundtrip[of two_profiles "''p_m2r1c00000abc''" leo env_ok "''New''"]
        updateProfile_name_roundtrip[of two_profiles "''p_m2r1c00000abc''" leo env_quota_exceeded "''New''"]
        updateProfile_name_roundtrip[of two_profiles "''p_unknown''" leo env_ok "''New''" "only_name ''New''"]
  by (simp add: two_profiles_def loadData_def load_def env_ok_def env_quota_exceeded_def
        keyed_by_id_def mia_def leo_def updateProfile_def getAllProfiles_def Let_def saveData_def
        save_def assign_profile_def only_name_def no_updates_def js_get_def Object_prototype_def)

text \<open>
  C9 as the specification words it fails in two ways. When \<open>setItem\<close> throws, the
  call returns the profile with the new name, and \<open>getAllProfiles\<close> afterwards shows
  the old name. And for the unknown id \<open>constructor\<close> the call does not return null:
  \<open>Object.assign\<close> is applied to the inherited \<open>Object\<close> function and throws.
\<close>

theorem updateProfile_name_roundtrip_counterexample:
  "fst (updateProfile env_quota_exceeded ''p_m2r1c00000abc'' (only_name ''New'') two_profiles) =
     Inr (Own (leo\<lparr>name := ''New''\<rparr>)) \<and>
   fst (getAllProfiles (snd (updateProfile env_quota_exceeded ''p_m2r1c00000abc'' (only_name ''New'')
     two_profiles))) = [mia, leo] \<and>
   name leo = ''Leo'' \<and>
   map_of (profiles (fst (loadData two_profiles))) ''constructor'' = None \<and>
   updateProfile env_ok ''constructor'' (only_name ''New'') two_profiles = (Inl TypeError, two_profiles)"
  by (simp add: two_profiles_def loadData_def load_def env_ok_def env_quota_exceeded_def
        mia_def leo_def updateProfile_def getAllProfiles_def Let_def saveData_def
        save_def assign_profile_def only_name_def no_updates_def js_get_def Object_prototype_def
        assign_throws_def)

text \<open>
  C10. \<open>updateProfile\<close> does not protect the id: with \<open>{id: other}\<close>, for an id of
  the collection and another id, the call returns the profile with its id field
  overwritten, and the stored collection holds that profile under the old key; the
  collection is no longer keyed by id.
\<close>

theorem updateProfile_overwrites_id:
  "map_of (profiles (fst (loadData ls))) i = Some p \<and> setItem_ok e \<and> other \<noteq> i \<longrightarrow>
     fst (updateProfile e i (only_id other) ls) = Inr (Own (p\<lparr>profile_id := other\<rparr>)) \<and>
     map_of (profiles (fst (loadData (snd (updateProfile e i (only_id other) ls))))) i =
       Some (p\<lparr>profile_id := other\<rparr>) \<and>
     profile_id (p\<lparr>profile_id := other\<rparr>) \<noteq> i \<and>
     \<not> keyed_by_id (profiles (fst (loadData (snd (updateProfile e i (only_id other) ls)))))"
proof (intro impI)
  assume a: "map_of (profiles (fst (loadData ls))) i = Some p \<and> setItem_ok e \<and> other \<noteq> i"
  let ?ps' = "profiles (fst (loadData (snd (updateProfile e i (only_id other) ls))))"
  from a have stored: "?ps' = AList.update i (p\<lparr>profile_id := other\<rparr>) (profiles (fst (loadData ls)))"
    by (simp add: updateProfile_stored assign_id)
  then have m: "map_of ?ps' i = Some (p\<lparr>profile_id := other\<rparr>)"
    by (simp add: update_conv')
  then have "(i, p\<lparr>profile_id := other\<rparr>) \<in> set ?ps'"
    by (rule map_of_SomeD)
  with a have "\<not> list_all (\<lambda>kp. profile_id (snd kp) = fst kp) ?ps'"
    unfolding list_all_iff by force
  then have "\<not> keyed_by_id ?ps'"
    by (simp add: keyed_by_id_def)
  with a m show "fst (updateProfile e i (only_id other) ls) = Inr (Own (p\<lparr>profile_id := other\<rparr>)) \<and>
     map_of ?ps' i = Some (p\<lparr>profile_id := other\<rparr>) \<and>
     profile_id (p\<lparr>profile_id := other\<rparr>) \<noteq> i \<and> \<not> keyed_by_id ?ps'"
    by (simp add: updateProfile_known assign_id)
qed

theorem updateProfile_overwrites_id_witness:
  "keyed_by_id (profiles (fst (loadData two_profiles))) \<and>
   fst (updateProfile env_ok ''p_m2r1bz7k4fzyo'' (only_id ''p_other'') two_profiles) =
     Inr (Own (mia\<lparr>profile_id := ''p_other''\<rparr>)) \<and>
   map_of (profiles (fst (loadData (snd (updateProfile env_ok ''p_m2r1bz7k4fzyo'' (only_id ''p_other'') two_profiles)))))
     ''p_m2r1bz7k4fzyo'' = Some (mia\<lparr>profile_id := ''p_other''\<rparr>) \<and>
   \<not> keyed_by_id (profiles (fst (loadData (snd (updateProfile env_ok ''p_m2r1bz7k4fzyo'' (only_id ''p_other'') two_profiles)))))"
  using updateProfile_overwrites_id[of two_profiles "''p_m2r1bz7k4fzyo''" mia env_ok "''p_other''"]
  by (simp add: two_profiles_def loadData_def load_def env_ok_def keyed_by_id_def mia_def leo_def)

section \<open>Properties of the progress manager\<close>

lemma loadProgressData_snd [simp]: "snd (loadProgressData ls) = ls"
  by (simp add: loadProgressData_def load_def split: option.splits)

lemma increment_exact:
  assumes "\<bar>n\<bar> < 2 ^ 53"
  shows "increment n = n + 1"
proof -
  from assms have "nat \<bar>n + 1\<bar> \<le> 2 ^ 53"
    by simp
  then show ?thesis
    by (simp add: increment_def to_double_def Let_def)
qed

lemma increment_at_limit: "increment (2 ^ 53) = 2 ^ 53"
  by (simp add: increment_def to_double_def Let_def bit_length.simps)

lemma getGameProgress_record:
  "p \<notin> set Object_prototype \<Longrightarrow> g \<notin> set Object_prototype \<Longrightarrow>
   getGameProgress p g ls =
     Done (Record (case stored_entry p g ls of None \<Rightarrow> makeDefault | Some r \<Rightarrow> r)) ls"
  by (simp add: getGameProgress_def stored_entry_def loadProgressData_def load_def js_get_def
      split: option.splits)

lemma updateGameProgress_record:
  "p \<notin> set Object_prototype \<Longrightarrow> g \<notin> set Object_prototype \<Longrightarrow>
   \<exists>ls'. updateGameProgress e p g u ls =
           Done (Record ((assign_progress (case stored_entry p g ls of None \<Rightarrow> makeDefault | Some r \<Rightarrow> r) u)
                   \<lparr>lastPlayed := Some (nowISO e)\<rparr>)) ls' \<and>
         (setItem_ok e \<longrightarrow>
            stored_entry p g ls' =
              Some ((assign_progress (case stored_entry p g ls of None \<Rightarrow> makeDefault | Some r \<Rightarrow> r) u)
                   \<lparr>lastPlayed := Some (nowISO e)\<rparr>)) \<and>
         (\<not> setItem_ok e \<longrightarrow> ls' = ls)"
  by (simp add: updateGameProgress_def stored_entry_def loadProgressData_def load_def js_get_def
      Let_def saveProgressData_def save_def split: option.splits)

lemma recordSession_record:
  assumes "p \<notin> set Object_prototype" "g \<notin> set Object_prototype"
    and "getGameProgress p g ls = Done (Record r0) ls"
  shows "\<exists>ls'. recordSession e p g level ls =
           Done (Record (r0\<lparr>sessionsPlayed := increment (sessionsPlayed r0), currentLevel := level,
                   bestLevel := max (bestLevel r0) level, lastPlayed := Some (nowISO e)\<rparr>)) ls' \<and>
         (setItem_ok e \<longrightarrow>
            getGameProgress p g ls' =
              Done (Record (r0\<lparr>sessionsPlayed := increment (sessionsPlayed r0), currentLevel := level,
                   bestLevel := max (bestLevel r0) level, lastPlayed := Some (nowISO e)\<rparr>)) ls') \<and>
         (\<not> setItem_ok e \<longrightarrow> ls' = ls)"
proof -
  let ?u = "as_updates (r0\<lparr>sessionsPlayed := increment (sessionsPlayed r0), currentLevel := level,
      bestLevel := max (bestLevel r0) level\<rparr>)"
  let ?r = "r0\<lparr>sessionsPlayed := increment (sessionsPlayed r0), currentLevel := level,
      bestLevel := max (bestLevel r0) level, lastPlayed := Some (nowISO e)\<rparr>"
  from assms(3) have call: "recordSession e p g level ls = updateGameProgress e p g ?u ls"
    by (simp add: recordSession_def Let_def max_def)
  have r: "(assign_progress r' ?u)\<lparr>lastPlayed := Some (nowISO e)\<rparr> = ?r" for r'
    by (simp add: assign_progress_def as_updates_def)
  from updateGameProgress_record[OF assms(1,2), of e ?u ls] obtain ls' where
    ls': "updateGameProgress e p g ?u ls = Done (Record ?r) ls'"
      "setItem_ok e \<longrightarrow> stored_entry p g ls' = Some ?r" "\<not> setItem_ok e \<longrightarrow> ls' = ls"
    unfolding r by blast
  from ls'(2) have "setItem_ok e \<longrightarrow> getGameProgress p g ls' = Done (Record ?r) ls'"
    by (simp add: getGameProgress_record[OF assms(1,2)])
  with call ls' show ?thesis by simp
qed

text \<open>
  C4, as the code has it. For a profile and a game whose names are not names of members
  of \<open>Object.prototype\<close>, \<open>getGameProgress\<close> returns a record and \<open>recordSession\<close>
  returns a record: with one session more (for a count below \<open>2^53\<close>), the given level
  as current level and the larger of the old best level and the given level as best
  level. When the save succeeds this record is what is stored; when it fails the stored
  state is as before. Hence, when the best level is at most 3 beforehand (a pair never
  written has 1) and the first save succeeds, a session at level 3 followed by a session
  at level 2 leaves best level 3 and current level 2.
\<close>

theorem recordSession_levels:
  "p \<notin> set Object_prototype \<and> g \<notin> set Object_prototype \<longrightarrow>
     (\<exists>r0 r ls'.
        getGameProgress p g ls = Done (Record r0) ls \<and>
        recordSession e p g level ls = Done (Record r) ls' \<and>
        (\<bar>sessionsPlayed r0\<bar> < 2 ^ 53 \<longrightarrow> sessionsPlayed r = sessionsPlayed r0 + 1) \<and>
        currentLevel r = level \<and>
        bestLevel r = max (bestLevel r0) level \<and>
        (setItem_ok e \<longrightarrow> getGameProgress p g ls' = Done (Record r) ls') \<and>
        (\<not> setItem_ok e \<longrightarrow> ls' = ls)) \<and>
     (setItem_ok e \<and> (\<exists>r0. getGameProgress p g ls = Done (Record r0) ls \<and> bestLevel r0 \<le> 3) \<longrightarrow>
        (\<exists>r1 ls1 r2 ls2.
           recordSession e p g 3 ls = Done (Record r1) ls1 \<and>
           recordSession e' p g 2 ls1 = Done (Record r2) ls2 \<and>
           bestLevel r2 = 3 \<and> currentLevel r2 = 2 \<and>
           (setItem_ok e' \<longrightarrow> getGameProgress p g ls2 = Done (Record r2) ls2)))"
proof (intro impI conjI)
  assume names: "p \<notin> set Object_prototype \<and> g \<notin> set Object_prototype"
  then have pn: "p \<notin> set Object_prototype" and gn: "g \<notin> set Object_prototype"
    by simp_all
  obtain r0 where r0: "getGameProgress p g ls = Done (Record r0) ls"
    using getGameProgress_record[OF pn gn] by blast
  let ?r = "r0\<lparr>sessionsPlayed := increment (sessionsPlayed r0), currentLevel := level,
      bestLevel := max (bestLevel r0) level, lastPlayed := Some (nowISO e)\<rparr>"
  from recordSession_record[OF pn gn r0, of e level] obtain ls' where
    "recordSession e p g level ls = Done (Record ?r) ls'"
    "setItem_ok e \<longrightarrow> getGameProgress p g ls' = Done (Record ?r) ls'"
    "\<not> setItem_ok e \<longrightarrow> ls' = ls"
    by blast
  with r0 have "getGameProgress p g ls = Done (Record r0) ls \<and>
        recordSession e p g level ls = Done (Record ?r) ls' \<and>
        (\<bar>sessionsPlayed r0\<bar> < 2 ^ 53 \<longrightarrow> sessionsPlayed ?r = sessionsPlayed r0 + 1) \<and>
        currentLevel ?r = level \<and>
        bestLevel ?r = max (bestLevel r0) level \<and>
        (setItem_ok e \<longrightarrow> getGameProgress p g ls' = Done (Record ?r) ls') \<and>
        (\<not> setItem_ok e \<longrightarrow> ls' = ls)"
    by (simp add: increment_exact)
  then show "\<exists>r0 r ls'.
        getGameProgress p g ls = Done (Record r0) ls \<and>
        recordSession e p g level ls = Done (Record r) ls' \<and>
        (\<bar>sessionsPlayed r0\<bar> < 2 ^ 53 \<longrightarrow> sessionsPlayed r = sessionsPlayed r0 + 1) \<and>
        currentLevel r = level \<and>
        bestLevel r = max (bestLevel r0) level \<and>
        (setItem_ok e \<longrightarrow> getGameProgress p g ls' = Done (Record r) ls') \<and>
        (\<not> setItem_ok e \<longrightarrow> ls' = ls)"
    by blast
next
  assume names: "p \<notin> set Object_prototype \<and> g \<notin> set Object_prototype"
    and b: "setItem_ok e \<and> (\<exists>r0. getGameProgress p g ls = Done (Record r0) ls \<and> bestLevel r0 \<le> 3)"
  from names have pn: "p \<notin> set Object_prototype" and gn: "g \<notin> set Object_prototype"
    by simp_all
  from b obtain r0 where r0: "getGameProgress p g ls = Done (Record r0) ls" "bestLevel r0 \<le> 3"
    by blast
  let ?r1 = "r0\<lparr>sessionsPlayed := increment (sessionsPlayed r0), currentLevel := 3,
      bestLevel := max (bestLevel r0) 3, lastPlayed := Some (nowISO e)\<rparr>"
  from recordSession_record[OF pn gn r0(1), of e 3] b obtain ls1 where
    one: "recordSession e p g 3 ls = Done (Record ?r1) ls1"
      "getGameProgress p g ls1 = Done (Record ?r1) ls1"
    by blast
  let ?r2 = "?r1\<lparr>sessionsPlayed := increment (sessionsPlayed ?r1), currentLevel := 2,
      bestLevel := max (bestLevel ?r1) 2, lastPlayed := Some (nowISO e')\<rparr>"
  from recordSession_record[OF pn gn one(2), of e' 2] obtain ls2 where
    two: "recordSession e' p g 2 ls1 = Done (Record ?r2) ls2"
      "setItem_ok e' \<longrightarrow> getGameProgress p g ls2 = Done (Record ?r2) ls2"
    by blast
  from r0(2) have "bestLevel ?r2 = 3 \<and> currentLevel ?r2 = 2"
    by simp
  with one(1) two show "\<exists>r1 ls1 r2 ls2.
           recordSession e p g 3 ls = Done (Record r1) ls1 \<and>
           recordSession e' p g 2 ls1 = Done (Record r2) ls2 \<and>
           bestLevel r2 = 3 \<and> currentLevel r2 = 2 \<and>
           (setItem_ok e' \<longrightarrow> getGameProgress p g ls2 = Done (Record r2) ls2)"
    by blast
qed

text \<open>The definitions that evaluate a call of the progress manager on a concrete input.\<close>

lemmas progress_eval =
  recordSession_def getGameProgress_def updateGameProgress_def loadProgressData_def load_def
  saveProgressData_def save_def js_get_def Object_prototype_def Let_def and_then_def returned_def
  assign_progress_def as_updates_def makeDefault_def env_ok_def env_quota_exceeded_def
  increment_def to_double_def one_record_def PREFIX_def PROGRESS_KEY_def stored_entry_def

theorem recordSession_levels_witness:
  "returned (and_then
      (recordSession env_ok ''p_m2r1bz7k4fzyo'' ''feed-monster'' 3
         (Map.empty :: nat progress_data localStorage))
      (recordSession env_ok ''p_m2r1bz7k4fzyo'' ''feed-monster'' 2)) =
     Some (Record \<lparr>sessionsPlayed = 2, currentLevel = 2, bestLevel = 3,
        lastPlayed = Some ''2026-11-03T10:00:00.000Z'', custom = Map.empty\<rparr>) \<and>
   returned (recordSession env_ok ''p_m2r1bz7k4fzyo'' ''feed-monster'' 3
         (Map.empty :: nat progress_data localStorage)) =
     Some (Record \<lparr>sessionsPlayed = 1, currentLevel = 3, bestLevel = 3,
        lastPlayed = Some ''2026-11-03T10:00:00.000Z'', custom = Map.empty\<rparr>)"
  using recordSession_levels[of "''p_m2r1bz7k4fzyo''" "''feed-monster''"
      "Map.empty :: nat progress_data localStorage" env_ok 3 env_ok]
  by (simp add: progress_eval)

text \<open>
  C4 as the specification words it fails in four ways. After a first session whose save
  failed, the second session starts from the default record and leaves best level 2.
  With a stored best level of 5, the two sessions leave best level 5. A session count of
  \<open>2^53\<close> is not incremented. And for the game name \<open>constructor\<close> in Mia's slot the
  call returns the inherited \<open>Object\<close> function, not a record.
\<close>

theorem recordSession_levels_counterexample:
  "returned (and_then
      (recordSession env_quota_exceeded ''p_m2r1bz7k4fzyo'' ''feed-monster'' 3
         (Map.empty :: nat progress_data localStorage))
      (recordSession env_ok ''p_m2r1bz7k4fzyo'' ''feed-monster'' 2)) =
     Some (Record \<lparr>sessionsPlayed = 1, currentLevel = 2, bestLevel = 2,
        lastPlayed = Some ''2026-11-03T10:00:00.000Z'', custom = Map.empty\<rparr>) \<and>
   returned (and_then
      (recordSession env_ok ''p_m2r1bz7k4fzyo'' ''feed-monster'' 3 (one_record 7 5))
      (recordSession env_ok ''p_m2r1bz7k4fzyo'' ''feed-monster'' 2)) =
     Some (Record \<lparr>sessionsPlayed = 9, currentLevel = 2, bestLevel = 5,
        lastPlayed = Some ''2026-11-03T10:00:00.000Z'', custom = Map.empty\<rparr>) \<and>
   returned (recordSession env_ok ''p_m2r1bz7k4fzyo'' ''feed-monster'' 3
      (one_record 9007199254740992 1)) =
     Some (Record \<lparr>sessionsPlayed = 9007199254740992, currentLevel = 3, bestLevel = 3,
        lastPlayed = Some ''2026-11-03T10:00:00.000Z'', custom = Map.empty\<rparr>) \<and>
   returned (recordSession env_ok ''p_m2r1bz7k4fzyo'' ''constructor'' 3 (one_record 7 5)) =
     Some (Builtin ''constructor'')"
  by (simp add: progress_eval bit_length.simps)

text \<open>
  C6 does not hold of the code. \<open>data.profiles?.[profileId]?.[gameId]\<close> also answers
  with a member of \<open>Object.prototype\<close>: Mia has no record for the game name
  \<open>constructor\<close>, and \<open>getGameProgress\<close> returns the inherited \<open>Object\<close> function
  instead of the default record; \<open>updateGameProgress\<close> then creates no record
  either.
\<close>

theorem getGameProgress_answers_inherited_name:
  "stored_entry ''p_m2r1bz7k4fzyo'' ''constructor'' (one_record 7 5) = None \<and>
   getGameProgress ''p_m2r1bz7k4fzyo'' ''constructor'' (one_record 7 5) =
     Done (Builtin ''constructor'') (one_record 7 5) \<and>
   returned (and_then
      (updateGameProgress env_ok ''p_m2r1bz7k4fzyo'' ''constructor'' (as_updates makeDefault)
         (one_record 7 5))
      (getGameProgress ''p_m2r1bz7k4fzyo'' ''constructor'')) =
     Some (Builtin ''constructor'')"
  by (simp add: progress_eval)

text \<open>
  For names that are not names of members of \<open>Object.prototype\<close>, a pair without a
  stored record gets the default record, and the read leaves \<open>localStorage\<close> as it was.
\<close>

lemma getGameProgress_default:
  "p \<notin> set Object_prototype \<Longrightarrow> g \<notin> set Object_prototype \<Longrightarrow> stored_entry p g ls = None \<Longrightarrow>
   getGameProgress p g ls =
     Done (Record \<lparr>sessionsPlayed = 0, currentLevel = 1, bestLevel = 1, lastPlayed = None,
       custom = Map.empty\<rparr>) ls"
  by (simp add: getGameProgress_record makeDefault_def)


section \<open>Properties of the app controller\<close>

text \<open>Registering the two placeholders in turn gives the sample registry.\<close>

lemma two_games_registered:
  "snd (register story_bubbles (snd (register letter_safari initial_games))) = two_games"
  by (simp add: register_def falsy_id_def letter_safari_def story_bubbles_def initial_games_def
      two_games_def)

text \<open>
  What \<open>showScreen\<close> itself guarantees: at the call, a game that \<open>activeGame\<close> holds
  is destroyed once and the variable is cleared; the new screen is built later, by the
  scheduled callback.
\<close>

lemma showScreen_tears_down:
  "activeGame (showScreen r a) = None \<and>
   timeouts (showScreen r a) = timeouts a @ [r] \<and>
   calls (showScreen r a) = calls a @ (case activeGame a of None \<Rightarrow> [] | Some g \<Rightarrow> [Destroy g])"
  by (simp add: showScreen_def Let_def split: option.splits)

text \<open>
  When the first game has been mounted before the second one is launched, it is
  destroyed once, before the second one is initialised.
\<close>

lemma launch_after_mount:
  "run two_games two_profiles
     [LaunchGame ''letter-safari'', Timeout, LaunchGame ''story-bubbles'', Timeout] initial_app =
   \<lparr>activeGame = Some ''story-bubbles'', timeouts = [],
    calls = [Render (Game ''letter-safari''), Init ''letter-safari'', Destroy ''letter-safari'',
             Render (Game ''story-bubbles''), Init ''story-bubbles'']\<rparr>"
  by (simp add: run_def launchGame_def get_def two_games_def showScreen_def timeout_def render_def
      initial_app_def Let_def)

text \<open>
  C1 does not hold of the code. \<open>activeGame\<close> is set by the scheduled callback, not by
  \<open>showScreen\<close>: when a second game is launched within the 200 ms in which the first
  callback is still pending, \<open>showScreen\<close> finds no game to tear down. Both callbacks
  then run, the first game is initialised, the second game is initialised, and
  \<open>destroy\<close> of the first game is never called: two game modules are mounted.
\<close>

theorem launch_during_fade_leaves_first_game_mounted:
  "run two_games two_profiles
     [LaunchGame ''letter-safari'', LaunchGame ''story-bubbles'', Timeout, Timeout] initial_app =
   \<lparr>activeGame = Some ''story-bubbles'', timeouts = [],
    calls = [Render (Game ''letter-safari''), Init ''letter-safari'',
             Render (Game ''story-bubbles''), Init ''story-bubbles'']\<rparr> \<and>
   mounted (calls (run two_games two_profiles
     [LaunchGame ''letter-safari'', LaunchGame ''story-bubbles'', Timeout, Timeout] initial_app)) []
     = [''letter-safari'', ''story-bubbles'']"
  by (simp add: run_def launchGame_def get_def two_games_def showScreen_def timeout_def render_def
      initial_app_def Let_def)

text \<open>
  The same happens with any other screen: a menu requested while the game's callback is
  pending is built while the game is mounted and \<open>activeGame\<close> holds it.
\<close>

lemma menu_during_fade_keeps_game_mounted:
  "run two_games two_profiles
     [LaunchGame ''letter-safari'', RenderMenu, Timeout, Timeout] initial_app =
   \<lparr>activeGame = Some ''letter-safari'', timeouts = [],
    calls = [Render (Game ''letter-safari''), Init ''letter-safari'', Render Menu]\<rparr>"
  by (simp add: run_def launchGame_def get_def two_games_def showScreen_def timeout_def render_def
      initial_app_def Let_def renderMenu_def getActiveProfile_def loadData_def load_def
      two_profiles_def js_get_def)

end
